theory Spec2Isabelle
  imports Main "HOL-Library.Word" "HOL-Library.Monad_Syntax"
begin

section \<open>Go strings and the \<open>strings\<close> functions the decoders call\<close>

text \<open>
  A Go string is a sequence of bytes; \<open>string\<close> (a list of 8-bit \<open>char\<close>s) is that
  sequence. The functions below are the ones of Go's standard \<open>strings\<close> package that
  \<open>things.go\<close> calls, written from the package's documented behaviour. An operation
  that can raise a Go run-time panic (a slice or an index out of range) returns an
  \<open>option\<close>, and \<open>None\<close> is the panic.
\<close>

definition NL :: char where
  "NL = CHR 0x0A"

text \<open>\<open>s[lo:hi]\<close>: panics unless \<open>0 \<le> lo \<le> hi \<le> len(s)\<close>.\<close>

definition slice :: "string \<Rightarrow> int \<Rightarrow> int \<Rightarrow> string option" where
  "slice s lo hi =
     (if 0 \<le> lo \<and> lo \<le> hi \<and> hi \<le> int (length s)
      then Some (take (nat hi - nat lo) (drop (nat lo) s)) else None)"

text \<open>\<open>xs[i]\<close>: panics unless \<open>0 \<le> i < len(xs)\<close>.\<close>

definition index :: "'a list \<Rightarrow> int \<Rightarrow> 'a option" where
  "index xs i = (if 0 \<le> i \<and> i < int (length xs) then Some (xs ! nat i) else None)"

definition HasPrefix :: "string \<Rightarrow> string \<Rightarrow> bool" where
  "HasPrefix s p = (length p \<le> length s \<and> take (length p) s = p)"

definition TrimPrefix :: "string \<Rightarrow> string \<Rightarrow> string" where
  "TrimPrefix s p = (if HasPrefix s p then drop (length p) s else s)"

text \<open>\<open>strings.Index\<close>: the index of the first instance of \<open>sub\<close> in \<open>s\<close>, or \<open>-1\<close>.\<close>

fun Index :: "string \<Rightarrow> string \<Rightarrow> int" where
  "Index [] sub = (if sub = [] then 0 else - 1)"
| "Index (c # cs) sub =
     (if HasPrefix (c # cs) sub then 0
      else (let r = Index cs sub in if r < 0 then - 1 else r + 1))"

definition Contains :: "string \<Rightarrow> string \<Rightarrow> bool" where
  "Contains s sub = (0 \<le> Index s sub)"

lemma Index_lower: "- 1 \<le> Index s sub"
  by (induction s) (auto simp: Let_def)

lemma Index_upper: "0 \<le> Index s sub \<Longrightarrow> Index s sub + int (length sub) \<le> int (length s)"
proof (induction s)
  case Nil
  then show ?case by (simp split: if_splits)
next
  case (Cons c cs)
  then show ?case by (auto simp: Let_def HasPrefix_def split: if_splits)
qed

text \<open>
  \<open>strings.Split(s, sep)\<close> for a non-empty separator: cut at each non-overlapping
  instance of \<open>sep\<close>, left to right; the result always has at least one element. Every
  call in the decoders passes a constant non-empty separator. (With an empty separator Go
  splits after each UTF-8 sequence; the model splits after each byte there.)
\<close>

function Split :: "string \<Rightarrow> string \<Rightarrow> string list" where
  "Split s sep =
     (if sep = [] then map (\<lambda>c. [c]) s
      else (let m = Index s sep in
            if m < 0 then [s]
            else take (nat m) s # Split (drop (nat m + length sep) s) sep))"
  by pat_completeness auto
termination
proof (relation "measure (\<lambda>(s, sep). length s)")
  show "wf (measure (\<lambda>(s, sep). length s))" by simp
next
  fix s sep :: string and m :: int
  assume ne: "sep \<noteq> []" and m: "m = Index s sep" and nn: "\<not> m < 0"
  from m nn have "m + int (length sep) \<le> int (length s)"
    using Index_upper [of s sep] by simp
  moreover from ne have "0 < length sep" by simp
  ultimately have "0 < length s" using nn by linarith
  with ne show "((drop (nat m + length sep) s, sep), (s, sep)) \<in> measure (\<lambda>(s, sep). length s)"
    by (cases sep) auto
qed

declare Split.simps [simp del]

text \<open>
  \<open>strings.TrimSpace\<close> removes all leading and trailing white space, as defined by
  Unicode (\<open>unicode.IsSpace\<close>): the ASCII bytes tab, line feed, vertical tab, form feed,
  carriage return and space, and the UTF-8 encodings of U+0085, U+00A0, U+1680,
  U+2000..U+200A, U+2028, U+2029, U+202F, U+205F and U+3000.
\<close>

definition asciiSpace :: "char \<Rightarrow> bool" where
  "asciiSpace c = (c \<in> set [CHR 0x09, CHR 0x0A, CHR 0x0B, CHR 0x0C, CHR 0x0D, CHR 0x20])"

definition space2 :: "char \<Rightarrow> char \<Rightarrow> bool" where
  "space2 a b = (a = CHR 0xC2 \<and> (b = CHR 0x85 \<or> b = CHR 0xA0))"

definition space3 :: "char \<Rightarrow> char \<Rightarrow> char \<Rightarrow> bool" where
  "space3 a b c =
     ((a = CHR 0xE1 \<and> b = CHR 0x9A \<and> c = CHR 0x80) \<or>
      (a = CHR 0xE2 \<and> b = CHR 0x80 \<and>
         c \<in> set [CHR 0x80, CHR 0x81, CHR 0x82, CHR 0x83, CHR 0x84, CHR 0x85, CHR 0x86,
                   CHR 0x87, CHR 0x88, CHR 0x89, CHR 0x8A, CHR 0xA8, CHR 0xA9, CHR 0xAF]) \<or>
      (a = CHR 0xE2 \<and> b = CHR 0x81 \<and> c = CHR 0x9F) \<or>
      (a = CHR 0xE3 \<and> b = CHR 0x80 \<and> c = CHR 0x80))"

fun trimLeftSpace :: "string \<Rightarrow> string" where
  "trimLeftSpace (a # b # c # s) =
     (if asciiSpace a then trimLeftSpace (b # c # s)
      else if space2 a b then trimLeftSpace (c # s)
      else if space3 a b c then trimLeftSpace s
      else a # b # c # s)"
| "trimLeftSpace [a, b] =
     (if asciiSpace a then trimLeftSpace [b]
      else if space2 a b then [] else [a, b])"
| "trimLeftSpace [a] = (if asciiSpace a then [] else [a])"
| "trimLeftSpace [] = []"

text \<open>The same scan from the end, on the reversed string (last byte first).\<close>

fun trimLeftSpaceRev :: "string \<Rightarrow> string" where
  "trimLeftSpaceRev (c # b # a # s) =
     (if asciiSpace c then trimLeftSpaceRev (b # a # s)
      else if space2 b c then trimLeftSpaceRev (a # s)
      else if space3 a b c then trimLeftSpaceRev s
      else c # b # a # s)"
| "trimLeftSpaceRev [c, b] =
     (if asciiSpace c then trimLeftSpaceRev [b]
      else if space2 b c then [] else [c, b])"
| "trimLeftSpaceRev [c] = (if asciiSpace c then [] else [c])"
| "trimLeftSpaceRev [] = []"

definition TrimSpace :: "string \<Rightarrow> string" where
  "TrimSpace s = rev (trimLeftSpaceRev (rev (trimLeftSpace s)))"


section \<open>Times\<close>

text \<open>
  A \<open>time.Time\<close> as the decoders see it: the wall-clock reading and the location it is
  expressed in, as built by \<open>time.Date(year, month, day, hour, min, sec, nsec, loc)\<close>.
\<close>

datatype location = UTC | Local | FixedZone int

datatype time =
  Date (year: int) (month: int) (day: int) (hour: int) (minute: int) (sec: int) (nsec: int)
       (loc: location)

text \<open>The zero value \<open>time.Time{}\<close>: January 1, year 1, 00:00:00 UTC.\<close>

definition zeroTime :: time where
  "zeroTime = Date 1 1 1 0 0 0 0 UTC"

definition isDigit :: "char \<Rightarrow> bool" where
  "isDigit c = (48 \<le> (of_char c :: nat) \<and> (of_char c :: nat) \<le> 57)"

definition digit :: "char \<Rightarrow> int" where
  "digit c = int (of_char c) - 48"

definition isLeap :: "int \<Rightarrow> bool" where
  "isLeap y = (y mod 4 = 0 \<and> (y mod 100 \<noteq> 0 \<or> y mod 400 = 0))"

definition daysIn :: "int \<Rightarrow> int \<Rightarrow> int" where
  "daysIn m y =
     (if m = 2 then (if isLeap y then 29 else 28)
      else if m = 4 \<or> m = 6 \<or> m = 9 \<or> m = 11 then 30 else 31)"

text \<open>
  \<open>time.Parse("2006-01-02", value)\<close> of Go's standard library: exactly four digits,
  \<open>-\<close>, two digits, \<open>-\<close>, two digits, nothing after them; the month in 1..12 and
  the day within the month. Without a zone in the layout, \<open>Parse\<close> returns the time in
  UTC. \<open>None\<close> is the returned error.
\<close>

fun parseDate :: "string \<Rightarrow> time option" where
  "parseDate [y1, y2, y3, y4, s1, m1, m2, s2, d1, d2] =
     (if isDigit y1 \<and> isDigit y2 \<and> isDigit y3 \<and> isDigit y4 \<and> s1 = CHR ''-'' \<and>
         isDigit m1 \<and> isDigit m2 \<and> s2 = CHR ''-'' \<and> isDigit d1 \<and> isDigit d2
      then (let y = 1000 * digit y1 + 100 * digit y2 + 10 * digit y3 + digit y4;
                m = 10 * digit m1 + digit m2;
                d = 10 * digit d1 + digit d2
            in if m < 1 \<or> 12 < m then None
               else if d < 1 \<or> daysIn m y < d then None
               else Some (Date y m d 0 0 0 0 UTC))
      else None)"
| "parseDate _ = None"

section \<open>The tool-result envelope (package \<open>mcp\<close>)\<close>

record ContentBlock =
  Type :: string
  Text :: string

record ToolResult =
  Content :: "ContentBlock list"
  IsError :: bool

section \<open>The delimited-text task decoder (\<open>things.go\<close>)\<close>

record ChecklistItem =
  item_Title :: string
  item_Status :: string

record Task =
  UUID :: string
  Title :: string
  Status :: string
  Notes :: string
  Tags :: "string list"
  Deadline :: "time option"
  StartDate :: "time option"
  CreatedAt :: "time option"
  CompletedAt :: "time option"
  ProjectUUID :: string
  ProjectTitle :: string
  AreaUUID :: string
  AreaTitle :: string
  ChecklistItems :: "ChecklistItem list"

text \<open>\<open>Task{}\<close>, the zero value \<open>parseTaskBlock\<close> starts from.\<close>

definition emptyTask :: Task where
  "emptyTask = \<lparr>UUID = [], Title = [], Status = [], Notes = [], Tags = [],
     Deadline = None, StartDate = None, CreatedAt = None, CompletedAt = None,
     ProjectUUID = [], ProjectTitle = [], AreaUUID = [], AreaTitle = [],
     ChecklistItems = []\<rparr>"

text \<open>The local variables of \<open>parseTaskBlock\<close>'s loop.\<close>

record scanner =
  task :: Task
  notesBuilder :: string
  inNotes :: bool
  inChecklist :: bool

definition initScanner :: scanner where
  "initScanner = \<lparr>task = emptyTask, notesBuilder = [], inNotes = False, inChecklist = False\<rparr>"

text \<open>The two checklist glyphs, U+25A1 and U+2611, as the UTF-8 bytes of the source.\<close>

definition box :: string where
  "box = [CHR 0xE2, CHR 0x96, CHR 0xA1]"

definition boxChecked :: string where
  "boxChecked = [CHR 0xE2, CHR 0x98, CHR 0x91]"

text \<open>The \<open>switch key\<close> of lines 282-309.\<close>

definition switchKey :: "string \<Rightarrow> string \<Rightarrow> scanner \<Rightarrow> scanner" where
  "switchKey key val st =
     (if key = ''Title'' then st\<lparr>task := (task st)\<lparr>Title := val\<rparr>\<rparr>
      else if key = ''UUID'' then st\<lparr>task := (task st)\<lparr>UUID := val\<rparr>\<rparr>
      else if key = ''Status'' then st\<lparr>task := (task st)\<lparr>Status := val\<rparr>\<rparr>
      else if key = ''Notes''
        then st\<lparr>inNotes := True, notesBuilder := notesBuilder st @ val @ [NL]\<rparr>
      else if key = ''Project'' then st\<lparr>task := (task st)\<lparr>ProjectTitle := val\<rparr>\<rparr>
      else if key = ''Tags''
        then (if val \<noteq> [] then st\<lparr>task := (task st)\<lparr>Tags := Split val '', ''\<rparr>\<rparr> else st)
      else if key = ''Checklist'' then st\<lparr>inChecklist := True\<rparr>
      else if key = ''Start Date''
        then (case parseDate val of
                Some t \<Rightarrow> st\<lparr>task := (task st)\<lparr>StartDate := Some t\<rparr>\<rparr>
              | None \<Rightarrow> st)
      else if key = ''Deadline''
        then (case parseDate val of
                Some t \<Rightarrow> st\<lparr>task := (task st)\<lparr>Deadline := Some t\<rparr>\<rparr>
              | None \<Rightarrow> st)
      else st)"

text \<open>Lines 277-310: \<open>if idx := strings.Index(line, ":"); idx > 0 { ... }\<close>.\<close>

definition parseKeyValue :: "scanner \<Rightarrow> string \<Rightarrow> scanner option" where
  "parseKeyValue st line =
     (let idx = Index line '':'' in
      if 0 < idx then
        do {
          k \<leftarrow> slice line 0 idx;
          v \<leftarrow> slice line (idx + 1) (int (length line));
          Some (switchKey (TrimSpace k) (TrimSpace v) st)
        }
      else Some st)"

text \<open>The four prefixes that end the notes mode (lines 266-267).\<close>

definition notesEnd :: "string \<Rightarrow> bool" where
  "notesEnd line =
     (HasPrefix line ''Project:'' \<or> HasPrefix line ''Tags:'' \<or>
      HasPrefix line ''Checklist:'' \<or> HasPrefix line ''Deadline:'')"

text \<open>Lines 264-310: the notes mode, then the key/value parse.\<close>

definition parseNotes :: "scanner \<Rightarrow> string \<Rightarrow> scanner option" where
  "parseNotes st line =
     (if inNotes st then
        (if notesEnd line
         then parseKeyValue
                (st\<lparr>inNotes := False,
                    task := (task st)\<lparr>Notes := TrimSpace (notesBuilder st)\<rparr>\<rparr>) line
         else Some (st\<lparr>notesBuilder := notesBuilder st @ line @ [NL]\<rparr>))
      else parseKeyValue st line)"

text \<open>The body of the loop over the lines (lines 241-311); \<open>raw\<close> is the untrimmed line.\<close>

definition parseLine :: "scanner \<Rightarrow> string \<Rightarrow> scanner option" where
  "parseLine st raw =
     (let line = TrimSpace raw in
      if inChecklist st then
        (if HasPrefix line box \<or> HasPrefix line boxChecked then
           Some (st\<lparr>task := (task st)\<lparr>ChecklistItems := ChecklistItems (task st) @
             [\<lparr>item_Title = TrimSpace (TrimPrefix (TrimPrefix line box) boxChecked),
               item_Status = (if HasPrefix line boxChecked then ''completed''
                              else ''incomplete'')\<rparr>]\<rparr>\<rparr>)
         else if line \<noteq> [] \<and> \<not> Contains line '':'' then Some st
         else parseNotes (st\<lparr>inChecklist := False\<rparr>) line)
      else parseNotes st line)"

fun scanLines :: "scanner \<Rightarrow> string list \<Rightarrow> scanner option" where
  "scanLines st [] = Some st"
| "scanLines st (l # ls) =
     (case parseLine st l of None \<Rightarrow> None | Some st' \<Rightarrow> scanLines st' ls)"

definition parseTaskBlock :: "string \<Rightarrow> Task option" where
  "parseTaskBlock block =
     (case scanLines initScanner (Split block [NL]) of
        None \<Rightarrow> None
      | Some st \<Rightarrow>
          Some (if inNotes st then (task st)\<lparr>Notes := TrimSpace (notesBuilder st)\<rparr>
                else task st))"

text \<open>
  Go's \<open>error\<close> values of the two packages: \<open>Errorf msg e\<close> is
  \<open>fmt.Errorf(msg + ": %w", e)\<close>, which wraps \<open>e\<close> unchanged.
\<close>

record JSONRPCError =
  Code :: int
  Message :: string

datatype error =
    Errorf string error
  | RPCError JSONRPCError
  | ParseFailed error string
  | LibError string

text \<open>The loop over the task blocks of one content block (lines 216-225).\<close>

fun parseBlocks :: "string list \<Rightarrow> Task list \<Rightarrow> Task list option" where
  "parseBlocks [] tasks = Some tasks"
| "parseBlocks (b # bs) tasks =
     (let taskBlock = TrimSpace b in
      if taskBlock = [] then parseBlocks bs tasks
      else (case parseTaskBlock taskBlock of
              None \<Rightarrow> None
            | Some t \<Rightarrow>
                if Title t \<noteq> [] then parseBlocks bs (tasks @ [t])
                else parseBlocks bs tasks))"

text \<open>The loop over the content blocks (lines 212-227).\<close>

fun parseContent :: "ContentBlock list \<Rightarrow> Task list \<Rightarrow> Task list option" where
  "parseContent [] tasks = Some tasks"
| "parseContent (block # rest) tasks =
     (if Type block = ''text'' \<and> Text block \<noteq> [] then
        (case parseBlocks (Split (Text block) ([NL] @ ''---'' @ [NL])) tasks of
           None \<Rightarrow> None
         | Some tasks' \<Rightarrow> parseContent rest tasks')
      else parseContent rest tasks)"

text \<open>
  \<open>parseTasks\<close> returns \<open>([]Task, error)\<close>: \<open>Inr tasks\<close> is \<open>(tasks, nil)\<close>,
  \<open>Inl err\<close> is \<open>(nil, err)\<close>. The outer \<open>option\<close> is \<open>None\<close> when the function
  panics.
\<close>

definition parseTasks :: "ToolResult \<Rightarrow> (error + Task list) option" where
  "parseTasks result =
     (if length (Content result) = 0 then Some (Inr [])
      else (case parseContent (Content result) [] of
              None \<Rightarrow> None
            | Some tasks \<Rightarrow> Some (Inr tasks)))"

section \<open>The structured JSON event decoder (\<open>parseEvents\<close>)\<close>

record CalendarEvent =
  ev_ID :: string
  ev_Title :: string
  ev_StartTime :: time
  ev_EndTime :: time
  ev_Location :: string
  ev_Notes :: string
  ev_Calendar :: string
  ev_AllDay :: bool

record gcalDateTime =
  dt_DateTime :: string
  dt_Date :: string
  dt_TimeZone :: string

record gcalOrganizer =
  Email :: string
  DisplayName :: string
  Self :: bool

record gcalAttendee =
  att_Email :: string
  att_DisplayName :: string
  ResponseStatus :: string

record gcalEvent =
  ge_ID :: string
  ge_Summary :: string
  ge_Location :: string
  ge_Start :: gcalDateTime
  ge_End :: gcalDateTime
  ge_Status :: string
  ge_HTMLLink :: string
  ge_Organizer :: gcalOrganizer
  ge_Attendees :: "gcalAttendee list"

text \<open>
  The standard-library calls of \<open>parseEvents\<close> whose code is not part of the repository
  are parameters: \<open>json.Unmarshal\<close> of the text into \<open>[]gcalEvent\<close>
  (\<open>unmarshalEvents\<close>), \<open>json.Unmarshal\<close> of the text into
  \<open>struct { Events []gcalEvent `json:"events"` }\<close>, giving the \<open>Events\<close> field
  (\<open>unmarshalWrapped\<close>), and \<open>time.Parse(time.RFC3339, s)\<close> (\<open>parseRFC3339\<close>).
  Each returns its error as a value and does not panic.
\<close>

record decodelib =
  unmarshalEvents :: "string \<Rightarrow> error + gcalEvent list"
  unmarshalWrapped :: "string \<Rightarrow> error + gcalEvent list"
  parseRFC3339 :: "string \<Rightarrow> time option"

text \<open>\<open>truncate(s, max)\<close>, lines 539-544 (\<open>maxlen\<close> is the source's \<open>max\<close>).\<close>

definition truncate_s :: "string \<Rightarrow> int \<Rightarrow> string option" where
  "truncate_s s maxlen =
     (if int (length s) \<le> maxlen then Some s
      else do { p \<leftarrow> slice s 0 maxlen; Some (p @ ''...'') })"

text \<open>Lines 458-471: the start time.\<close>

definition setStart :: "decodelib \<Rightarrow> gcalEvent \<Rightarrow> CalendarEvent \<Rightarrow> CalendarEvent" where
  "setStart L ge event =
     (if dt_DateTime (ge_Start ge) \<noteq> [] then
        (case parseRFC3339 L (dt_DateTime (ge_Start ge)) of
           Some t \<Rightarrow> event\<lparr>ev_StartTime := t\<rparr>
         | None \<Rightarrow> event)
      else if dt_Date (ge_Start ge) \<noteq> [] then
        (case parseDate (dt_Date (ge_Start ge)) of
           Some t \<Rightarrow> event\<lparr>ev_StartTime := t, ev_AllDay := True\<rparr>
         | None \<Rightarrow> event)
      else event)"

text \<open>Lines 473-484: the end time.\<close>

definition setEnd :: "decodelib \<Rightarrow> gcalEvent \<Rightarrow> CalendarEvent \<Rightarrow> CalendarEvent" where
  "setEnd L ge event =
     (if dt_DateTime (ge_End ge) \<noteq> [] then
        (case parseRFC3339 L (dt_DateTime (ge_End ge)) of
           Some t \<Rightarrow> event\<lparr>ev_EndTime := t\<rparr>
         | None \<Rightarrow> event)
      else if dt_Date (ge_End ge) \<noteq> [] then
        (case parseDate (dt_Date (ge_End ge)) of
           Some t \<Rightarrow> event\<lparr>ev_EndTime := t\<rparr>
         | None \<Rightarrow> event)
      else event)"

text \<open>Lines 486-495: the calendar label; \<open>parts[0]\<close> is an index expression.\<close>

definition setCalendar :: "gcalEvent \<Rightarrow> CalendarEvent \<Rightarrow> CalendarEvent option" where
  "setCalendar ge event =
     (if DisplayName (ge_Organizer ge) \<noteq> [] then
        Some (event\<lparr>ev_Calendar := DisplayName (ge_Organizer ge)\<rparr>)
      else if Email (ge_Organizer ge) \<noteq> [] then
        do {
          p \<leftarrow> index (Split (Email (ge_Organizer ge)) ''@'') 0;
          Some (event\<lparr>ev_Calendar := p\<rparr>)
        }
      else Some (event\<lparr>ev_Calendar := ''Primary''\<rparr>))"

text \<open>The body of the conversion loop, lines 452-497, for one \<open>gcalEvent\<close>.\<close>

definition convertEvent :: "decodelib \<Rightarrow> gcalEvent \<Rightarrow> CalendarEvent option" where
  "convertEvent L ge =
     setCalendar ge
       (setEnd L ge
         (setStart L ge
           \<lparr>ev_ID = ge_ID ge, ev_Title = ge_Summary ge, ev_StartTime = zeroTime,
            ev_EndTime = zeroTime, ev_Location = ge_Location ge, ev_Notes = [],
            ev_Calendar = [], ev_AllDay = False\<rparr>))"

fun convertEvents ::
  "decodelib \<Rightarrow> gcalEvent list \<Rightarrow> CalendarEvent list \<Rightarrow> CalendarEvent list option" where
  "convertEvents L [] events = Some events"
| "convertEvents L (ge # rest) events =
     (case convertEvent L ge of
        None \<Rightarrow> None
      | Some event \<Rightarrow> convertEvents L rest (events @ [event]))"

text \<open>Lines 423-430: the text of the first block of type \<open>text\<close>.\<close>

fun firstText :: "ContentBlock list \<Rightarrow> string" where
  "firstText [] = []"
| "firstText (block # rest) = (if Type block = ''text'' then Text block else firstText rest)"

definition parseEvents :: "decodelib \<Rightarrow> ToolResult \<Rightarrow> (error + CalendarEvent list) option" where
  "parseEvents L result =
     (if length (Content result) = 0 then Some (Inr [])
      else (let text = firstText (Content result) in
        if text = [] then Some (Inr [])
        else (case unmarshalEvents L text of
                Inr gcalEvents \<Rightarrow> map_option Inr (convertEvents L gcalEvents [])
              | Inl err \<Rightarrow>
                  (case unmarshalWrapped L text of
                     Inl err2 \<Rightarrow>
                       do { p \<leftarrow> truncate_s text 200; Some (Inl (ParseFailed err p)) }
                   | Inr wrappedEvents \<Rightarrow>
                       map_option Inr (convertEvents L wrappedEvents [])))))"

section \<open>The process transport (\<open>stdio.go\<close>)\<close>

type_synonym int64 = "64 word"

text \<open>
  \<open>JSONRPCResponse\<close>: \<open>Result\<close> is a \<open>json.RawMessage\<close>, \<open>None\<close> when it is
  \<open>nil\<close>; \<open>Error\<close> is a pointer, \<open>None\<close> when it is \<open>nil\<close>.
\<close>

record JSONRPCResponse =
  JSONRPC :: string
  ID :: int64
  Result :: "string option"
  Error :: "JSONRPCError option"

text \<open>The \<open>interface{}\<close> values the callers pass as \<open>params\<close>.\<close>

datatype any = ANil | ABool bool | AString string | AMap "(string \<times> any) list"

record JSONRPCRequest =
  req_JSONRPC :: string
  req_ID :: int64
  Method :: string
  Params :: any

record JSONRPCNotification =
  notif_JSONRPC :: string
  notif_Method :: string
  notif_Params :: any

text \<open>
  The \<open>encoding/json\<close> calls of the transport, as parameters: \<open>json.Marshal(req)\<close>,
  \<open>json.Marshal(notif)\<close> (whose error \<open>initialize\<close> discards) and
  \<open>json.Unmarshal(line, &resp)\<close> into a fresh \<open>JSONRPCResponse\<close>, \<open>None\<close> when it
  returns an error.
\<close>

record rpclib =
  marshalRequest :: "JSONRPCRequest \<Rightarrow> error + string"
  marshalNotification :: "JSONRPCNotification \<Rightarrow> string"
  unmarshalResponse :: "string \<Rightarrow> JSONRPCResponse option"

text \<open>
  The transport with its child process as a simulated pipe: \<open>cmdStart\<close> is what
  \<open>cmd.Start()\<close> returns, \<open>stdinErr\<close> the error a write to the child's input meets (if
  any), \<open>stdin\<close> the writes made so far, and \<open>stdout\<close> the newline-terminated lines the
  child still has to deliver, after which a read returns \<open>io.EOF\<close>. \<open>startOnce\<close> is the
  done flag of the \<open>sync.Once\<close>. The mutex is not modelled: the functions below are
  the sequential behaviour of one caller.
\<close>

record StdioTransport =
  started :: bool
  startOnce :: bool
  reqID :: int64
  cmdStart :: "error option"
  stdinErr :: "error option"
  stdin :: "string list"
  stdout :: "string list"

text \<open>
  The read loop of \<open>Call\<close> (lines 186-210) for the allocated id (\<open>rid\<close>; the source's
  \<open>id\<close>): the outcome and the lines left unread.
\<close>

fun readResponse ::
  "rpclib \<Rightarrow> int64 \<Rightarrow> string list \<Rightarrow> (error + string option) \<times> string list" where
  "readResponse L rid [] = (Inl (Errorf ''failed to read response'' (LibError ''EOF'')), [])"
| "readResponse L rid (line # rest) =
     (case unmarshalResponse L line of
        None \<Rightarrow> readResponse L rid rest
      | Some resp \<Rightarrow>
          if ID resp = 0 \<and> Result resp = None \<and> Error resp = None
          then readResponse L rid rest
          else if ID resp = rid then
            (case Error resp of
               Some e \<Rightarrow> (Inl (RPCError e), rest)
             | None \<Rightarrow> (Inr (Result resp), rest))
          else readResponse L rid rest)"

text \<open>Lines 164-211: allocate the rid, write the request, read until the response.\<close>

definition exchange ::
  "rpclib \<Rightarrow> StdioTransport \<Rightarrow> string \<Rightarrow> any \<Rightarrow> (error + string option) \<times> StdioTransport" where
  "exchange L t method params =
     (let rid = reqID t + 1;
          t1 = t\<lparr>reqID := rid\<rparr>;
          req = \<lparr>req_JSONRPC = ''2.0'', req_ID = rid, Method = method, Params = params\<rparr>
      in case marshalRequest L req of
           Inl err \<Rightarrow> (Inl (Errorf ''failed to marshal request'' err), t1)
         | Inr data \<Rightarrow>
             (case stdinErr t1 of
                Some err \<Rightarrow> (Inl (Errorf ''failed to write request'' err), t1)
              | None \<Rightarrow>
                  (let t2 = t1\<lparr>stdin := stdin t1 @ [data @ [NL]]\<rparr>;
                       (r, rest) = readResponse L rid (stdout t2)
                   in (r, t2\<lparr>stdout := rest\<rparr>))))"

definition initParams :: any where
  "initParams = AMap
     [(''protocolVersion'', AString ''2024-11-05''),
      (''capabilities'', AMap []),
      (''clientInfo'', AMap [(''name'', AString ''partner''), (''version'', AString ''0.1.0'')])]"

definition initializedNotification :: JSONRPCNotification where
  "initializedNotification =
     \<lparr>notif_JSONRPC = ''2.0'', notif_Method = ''notifications/initialized'',
      notif_Params = ANil\<rparr>"

text \<open>
  \<open>Call\<close>, \<open>Start\<close> and \<open>initialize\<close> call each other: \<open>Call\<close> starts a transport that
  is not started, \<open>Start\<close> runs the handshake inside the \<open>sync.Once\<close>, and
  \<open>initialize\<close> makes its request through \<open>Call\<close>, which finds \<open>started\<close> set.
  An \<open>error option\<close> is Go's \<open>error\<close>, \<open>None\<close> for \<open>nil\<close>.
\<close>

function Call ::
    "rpclib \<Rightarrow> StdioTransport \<Rightarrow> string \<Rightarrow> any \<Rightarrow> (error + string option) \<times> StdioTransport"
  and Start :: "rpclib \<Rightarrow> StdioTransport \<Rightarrow> error option \<times> StdioTransport"
  and initialize :: "rpclib \<Rightarrow> StdioTransport \<Rightarrow> error option \<times> StdioTransport"
where
  "Call L t method params =
     (if \<not> started t then
        (case Start L t of
           (Some err, t') \<Rightarrow> (Inl err, t')
         | (None, t') \<Rightarrow> exchange L t' method params)
      else exchange L t method params)"
| "Start L t =
     (if startOnce t then (None, t)
      else (case cmdStart t of
              Some err \<Rightarrow>
                (Some (Errorf ''failed to start MCP server'' err), t\<lparr>startOnce := True\<rparr>)
            | None \<Rightarrow>
                (case initialize L (t\<lparr>started := True\<rparr>) of
                   (Some err, t') \<Rightarrow>
                     (Some (Errorf ''failed to initialize MCP connection'' err),
                      t'\<lparr>startOnce := True\<rparr>)
                 | (None, t') \<Rightarrow> (None, t'\<lparr>startOnce := True\<rparr>))))"
| "initialize L t =
     (case Call L t ''initialize'' initParams of
        (Inl err, t') \<Rightarrow> (Some (Errorf ''initialize failed'' err), t')
      | (Inr res, t') \<Rightarrow>
          (case stdinErr t' of
             Some err \<Rightarrow> (Some err, t')
           | None \<Rightarrow>
               (None, t'\<lparr>stdin := stdin t' @
                  [marshalNotification L initializedNotification @ [NL]]\<rparr>)))"
  by pat_completeness auto
termination
  by (relation "measure (\<lambda>x. case x of
        Inl (L, t, m, p) \<Rightarrow> (if started t then 0 else 3)
      | Inr (Inl (L, t)) \<Rightarrow> 2
      | Inr (Inr (L, t)) \<Rightarrow> (if started t then 1 else 4))") auto

declare Call.simps [simp del] Start.simps [simp del] initialize.simps [simp del]

section \<open>Predicates and concrete instances used in the statements\<close>

text \<open>
  A line the read loop passes over while it waits for \<open>rid\<close>: it does not unmarshal, or
  it is a notification (line 199), or it answers another id (line 204 fails).
\<close>

definition skipped :: "rpclib \<Rightarrow> int64 \<Rightarrow> string \<Rightarrow> bool" where
  "skipped L rid line =
     (case unmarshalResponse L line of
        None \<Rightarrow> True
      | Some resp \<Rightarrow>
          (ID resp = 0 \<and> Result resp = None \<and> Error resp = None) \<or> ID resp \<noteq> rid)"

text \<open>A malformed line or a notification: no id, no result, no error.\<close>

definition noise :: "rpclib \<Rightarrow> string \<Rightarrow> bool" where
  "noise L line =
     (case unmarshalResponse L line of
        None \<Rightarrow> True
      | Some resp \<Rightarrow> ID resp = 0 \<and> Result resp = None \<and> Error resp = None)"

text \<open>
  A small instance of the \<open>encoding/json\<close> parameters for the concrete examples: four
  lines stand for a result for id 1, an error for id 1 and a notification; every other
  line does not unmarshal.
\<close>

definition stubRpc :: rpclib where
  "stubRpc = \<lparr>
     marshalRequest = (\<lambda>req. Inr (''request '' @ Method req)),
     marshalNotification = (\<lambda>n. ''notification '' @ notif_Method n),
     unmarshalResponse = (\<lambda>line.
       if line = ''result 1'' @ [NL]
         then Some \<lparr>JSONRPC = ''2.0'', ID = 1, Result = Some ''{}'', Error = None\<rparr>
       else if line = ''error 1'' @ [NL]
         then Some \<lparr>JSONRPC = ''2.0'', ID = 1, Result = None,
                    Error = Some \<lparr>Code = - 32601, Message = ''Method not found''\<rparr>\<rparr>
       else if line = ''progress'' @ [NL]
         then Some \<lparr>JSONRPC = ''2.0'', ID = 0, Result = None, Error = None\<rparr>
       else None)\<rparr>"

text \<open>A started transport whose child will deliver \<open>lines\<close>.\<close>

definition pipe :: "string list \<Rightarrow> StdioTransport" where
  "pipe lines = \<lparr>started = True, startOnce = True, reqID = 0, cmdStart = None,
     stdinErr = None, stdin = [], stdout = lines\<rparr>"

text \<open>A new transport whose command cannot be spawned.\<close>

definition unspawnable :: StdioTransport where
  "unspawnable = \<lparr>started = False, startOnce = False, reqID = 0,
     cmdStart = Some (LibError ''exec: no such file''), stdinErr = None, stdin = [],
     stdout = []\<rparr>"

text \<open>The envelope with one text block.\<close>

definition textResult :: "string \<Rightarrow> ToolResult" where
  "textResult text = \<lparr>Content = [\<lparr>Type = ''text'', Text = text\<rparr>], IsError = False\<rparr>"

text \<open>The text block of the example, and the one task it decodes to.\<close>

definition milkText :: string where
  "milkText = ''Title: Buy milk'' @ [NL] @ ''UUID: abc'' @ [NL] @ ''Status: incomplete'' @ [NL] @
     ''---'' @ [NL] @ ''Title: '' @ [NL] @ ''UUID: xyz'' @ [NL]"

definition milkTask :: Task where
  "milkTask = emptyTask\<lparr>UUID := ''abc'', Title := ''Buy milk'', Status := ''incomplete''\<rparr>"

text \<open>The case labels of the \<open>switch key\<close>, lines 283-305.\<close>

definition recognizedKeys :: "string list" where
  "recognizedKeys = [''Title'', ''UUID'', ''Status'', ''Notes'', ''Project'', ''Tags'',
     ''Checklist'', ''Start Date'', ''Deadline'']"

text \<open>The scanner after the single line \<open>Notes: call the shop\<close>.\<close>

definition notesOpen :: scanner where
  "notesOpen = initScanner\<lparr>notesBuilder := ''call the shop'' @ [NL], inNotes := True\<rparr>"

text \<open>
  \<open>decoded L text ges\<close>: the records \<open>parseEvents\<close> converts for \<open>text\<close> are \<open>ges\<close>,
  from the direct decode, or from the wrapped one when the direct decode fails.
\<close>

definition decoded :: "decodelib \<Rightarrow> string \<Rightarrow> gcalEvent list \<Rightarrow> bool" where
  "decoded L text ges =
     (case unmarshalEvents L text of
        Inr direct \<Rightarrow> ges = direct
      | Inl err \<Rightarrow> unmarshalWrapped L text = Inr ges)"

text \<open>
  A JSON text with one all-day event, the same array under the key \<open>events\<close>, the
  record both decode to, and a small instance of the decoder's parameters that knows
  these two texts: the array text decodes directly, the wrapped text only as the wrapped
  form, every other text not at all. \<open>q\<close> puts a string in double quotes.
\<close>

definition q :: "string \<Rightarrow> string" where
  "q s = [CHR 0x22] @ s @ [CHR 0x22]"

definition arrayText :: string where
  "arrayText = ''[{'' @ q ''id'' @ '':'' @ q ''e1'' @ '','' @ q ''summary'' @ '':'' @ q ''Offsite'' @
     '','' @ q ''start'' @ '':{'' @ q ''date'' @ '':'' @ q ''2025-03-10'' @ ''},'' @
     q ''end'' @ '':{'' @ q ''date'' @ '':'' @ q ''2025-03-11'' @ ''}}]''"

definition wrappedText :: string where
  "wrappedText = ''{'' @ q ''events'' @ '':'' @ arrayText @ ''}''"

definition offsite :: gcalEvent where
  "offsite = \<lparr>ge_ID = ''e1'', ge_Summary = ''Offsite'', ge_Location = [],
     ge_Start = \<lparr>dt_DateTime = [], dt_Date = ''2025-03-10'', dt_TimeZone = []\<rparr>,
     ge_End = \<lparr>dt_DateTime = [], dt_Date = ''2025-03-11'', dt_TimeZone = []\<rparr>,
     ge_Status = [], ge_HTMLLink = [],
     ge_Organizer = \<lparr>Email = [], DisplayName = [], Self = False\<rparr>, ge_Attendees = []\<rparr>"

definition offsiteDecoded :: CalendarEvent where
  "offsiteDecoded = \<lparr>ev_ID = ''e1'', ev_Title = ''Offsite'',
     ev_StartTime = Date 2025 3 10 0 0 0 0 UTC, ev_EndTime = Date 2025 3 11 0 0 0 0 UTC,
     ev_Location = [], ev_Notes = [], ev_Calendar = ''Primary'', ev_AllDay = True\<rparr>"

definition stubDecode :: decodelib where
  "stubDecode = \<lparr>
     unmarshalEvents = (\<lambda>text. if text = arrayText then Inr [offsite]
        else Inl (LibError ''json: cannot unmarshal into Go value of type []gcalEvent'')),
     unmarshalWrapped = (\<lambda>text. if text = wrappedText then Inr [offsite]
        else Inl (LibError ''json: cannot unmarshal into Go value of type struct'')),
     parseRFC3339 = (\<lambda>s. None)\<rparr>"

section \<open>The transport: results, errors, start\<close>

lemma readResponse_skipped:
  "list_all (skipped L rid) pre \<Longrightarrow> readResponse L rid (pre @ ls) = readResponse L rid ls"
  by (induction pre) (auto simp: skipped_def split: option.splits)

lemma noise_skipped: "noise L l \<Longrightarrow> skipped L rid l"
  by (auto simp: noise_def skipped_def split: option.splits)

lemma readResponse_result:
  assumes "list_all (skipped L rid) pre" "unmarshalResponse L line = Some resp"
    "ID resp = rid" "Result resp = Some res" "Error resp = None"
  shows "readResponse L rid (pre @ line # rest) = (Inr (Some res), rest)"
  using assms by (simp add: readResponse_skipped)

lemma readResponse_error:
  assumes "list_all (skipped L rid) pre" "unmarshalResponse L line = Some resp"
    "ID resp = rid" "Error resp = Some e"
  shows "readResponse L rid (pre @ line # rest) = (Inl (RPCError e), rest)"
  using assms by (simp add: readResponse_skipped)

text \<open>
  C1. On a started transport whose request marshals and whose write succeeds, let the
  child's output be any lines that are malformed or notifications, then a line that
  unmarshals to a response with the allocated id (\<open>reqID + 1\<close>), a result and no error.
  Then \<open>Call\<close> returns exactly that result; the lines before it are consumed without any
  effect on the outcome, and the lines after it are left unread.
\<close>

theorem Call_returns_result:
  assumes "started t"
    and "marshalRequest L \<lparr>req_JSONRPC = ''2.0'', req_ID = reqID t + 1, Method = method,
           Params = params\<rparr> = Inr data"
    and "stdinErr t = None"
    and "stdout t = pre @ line # rest"
    and "list_all (noise L) pre"
    and "unmarshalResponse L line = Some resp"
    and "ID resp = reqID t + 1" "Result resp = Some res" "Error resp = None"
  shows "Call L t method params =
           (Inr (Some res),
            t\<lparr>reqID := reqID t + 1, stdin := stdin t @ [data @ [NL]], stdout := rest\<rparr>)"
proof -
  from assms(5) have "list_all (skipped L (reqID t + 1)) pre"
    by (auto simp: list_all_iff noise_skipped)
  then have "readResponse L (reqID t + 1) (pre @ line # rest) = (Inr (Some res), rest)"
    using assms(6-9) by (rule readResponse_result)
  with assms(1-4) show ?thesis
    by (simp add: Call.simps exchange_def Let_def)
qed

theorem Call_returns_result_witness:
  "Call stubRpc
     (pipe [''debug: ready'' @ [NL], ''progress'' @ [NL], ''result 1'' @ [NL], ''tail'' @ [NL]])
     ''tools/list'' ANil =
   (Inr (Some ''{}''),
    (pipe [''tail'' @ [NL]])\<lparr>reqID := 1, stdin := [''request tools/list'' @ [NL]]\<rparr>)"
  using Call_returns_result
    [of "pipe [''debug: ready'' @ [NL], ''progress'' @ [NL], ''result 1'' @ [NL],
               ''tail'' @ [NL]]"
        stubRpc "''tools/list''" ANil "''request tools/list''"
        "[''debug: ready'' @ [NL], ''progress'' @ [NL]]" "''result 1'' @ [NL]"
        "[''tail'' @ [NL]]"
        "\<lparr>JSONRPC = ''2.0'', ID = 1, Result = Some ''{}'', Error = None\<rparr>" "''{}''"]
  by (simp add: pipe_def stubRpc_def noise_def)

text \<open>
  C3. On a started transport whose request marshals and whose write succeeds, when the
  first line the read loop does not skip is the response with the allocated id and it
  carries an error object \<open>e\<close>, \<open>Call\<close> fails and the error it returns is \<open>e\<close> itself:
  the same code and the same message.
\<close>

theorem Call_fails_with_rpc_error:
  assumes "started t"
    and "marshalRequest L \<lparr>req_JSONRPC = ''2.0'', req_ID = reqID t + 1, Method = method,
           Params = params\<rparr> = Inr data"
    and "stdinErr t = None"
    and "stdout t = pre @ line # rest"
    and "list_all (skipped L (reqID t + 1)) pre"
    and "unmarshalResponse L line = Some resp"
    and "ID resp = reqID t + 1" "Error resp = Some \<lparr>Code = c, Message = m\<rparr>"
  shows "Call L t method params =
           (Inl (RPCError \<lparr>Code = c, Message = m\<rparr>),
            t\<lparr>reqID := reqID t + 1, stdin := stdin t @ [data @ [NL]], stdout := rest\<rparr>)"
proof -
  have "readResponse L (reqID t + 1) (pre @ line # rest) =
          (Inl (RPCError \<lparr>Code = c, Message = m\<rparr>), rest)"
    using assms(5-8) by (rule readResponse_error)
  with assms(1-4) show ?thesis
    by (simp add: Call.simps exchange_def Let_def)
qed

theorem Call_fails_with_rpc_error_witness:
  "Call stubRpc (pipe [''progress'' @ [NL], ''error 1'' @ [NL]]) ''tools/call'' ANil =
   (Inl (RPCError \<lparr>Code = - 32601, Message = ''Method not found''\<rparr>),
    (pipe [])\<lparr>reqID := 1, stdin := [''request tools/call'' @ [NL]]\<rparr>)"
  using Call_fails_with_rpc_error
    [of "pipe [''progress'' @ [NL], ''error 1'' @ [NL]]" stubRpc "''tools/call''" ANil
        "''request tools/call''" "[''progress'' @ [NL]]" "''error 1'' @ [NL]" "[]"
        "\<lparr>JSONRPC = ''2.0'', ID = 1, Result = None,
          Error = Some \<lparr>Code = - 32601, Message = ''Method not found''\<rparr>\<rparr>"
        "- 32601" "''Method not found''"]
  by (simp add: pipe_def stubRpc_def skipped_def)

text \<open>
  C4. \<open>Start\<close> on a transport whose command cannot be spawned returns the spawn error
  the first time and \<open>nil\<close> the second time: the error lives in a local variable of the
  call that ran the \<open>sync.Once\<close> body, and a later call skips the body and returns its
  own, still \<open>nil\<close>, variable.
\<close>

theorem Start_twice_loses_error:
  "Start L unspawnable =
     (Some (Errorf ''failed to start MCP server'' (LibError ''exec: no such file'')),
      unspawnable\<lparr>startOnce := True\<rparr>) \<and>
   Start L (snd (Start L unspawnable)) = (None, unspawnable\<lparr>startOnce := True\<rparr>)"
  by (simp add: Start.simps unspawnable_def)

section \<open>The decoders never panic\<close>

lemma slice_key:
  "0 < Index line sub \<Longrightarrow>
   slice line 0 (Index line sub) = Some (take (nat (Index line sub)) line)"
  using Index_upper [of line sub] by (simp add: slice_def)

lemma slice_value:
  "0 < Index line '':'' \<Longrightarrow>
   slice line (Index line '':'' + 1) (int (length line)) =
     Some (drop (nat (Index line '':'' + 1)) line)"
  using Index_upper [of line "'':''"] by (simp add: slice_def)

lemma parseKeyValue_eq:
  "parseKeyValue st line =
     Some (if 0 < Index line '':''
           then switchKey (TrimSpace (take (nat (Index line '':'')) line))
                  (TrimSpace (drop (nat (Index line '':'' + 1)) line)) st
           else st)"
  by (simp add: parseKeyValue_def Let_def slice_key slice_value)

lemma parseNotes_total: "\<exists>st'. parseNotes st line = Some st'"
  by (simp add: parseNotes_def parseKeyValue_eq)

lemma parseLine_total: "\<exists>st'. parseLine st raw = Some st'"
  using parseNotes_total by (simp add: parseLine_def Let_def)

lemma scanLines_total: "\<exists>st'. scanLines st ls = Some st'"
proof (induction ls arbitrary: st)
  case Nil
  show ?case by simp
next
  case (Cons l ls)
  obtain st1 where "parseLine st l = Some st1" using parseLine_total by blast
  with Cons show ?case by simp
qed

lemma parseTaskBlock_total: "\<exists>t. parseTaskBlock block = Some t"
proof -
  obtain st where "scanLines initScanner (Split block [NL]) = Some st"
    using scanLines_total by blast
  then show ?thesis by (simp add: parseTaskBlock_def)
qed

lemma parseBlocks_total: "\<exists>ts. parseBlocks bs tasks = Some ts"
proof (induction bs arbitrary: tasks)
  case Nil
  show ?case by simp
next
  case (Cons b bs)
  obtain t where "parseTaskBlock (TrimSpace b) = Some t" using parseTaskBlock_total by blast
  with Cons show ?case by (simp add: Let_def)
qed

lemma parseContent_total: "\<exists>ts. parseContent blocks tasks = Some ts"
proof (induction blocks arbitrary: tasks)
  case Nil
  show ?case by simp
next
  case (Cons b bs)
  obtain ts where "parseBlocks (Split (Text b) ([NL] @ ''---'' @ [NL])) tasks = Some ts"
    using parseBlocks_total by blast
  with Cons show ?case by simp
qed

lemma parseTasks_total: "\<exists>ts. parseTasks result = Some (Inr ts)"
proof -
  obtain ts where "parseContent (Content result) [] = Some ts"
    using parseContent_total by blast
  then show ?thesis by (simp add: parseTasks_def)
qed

lemma Split_nonempty: "sep \<noteq> [] \<Longrightarrow> Split s sep \<noteq> []"
  by (subst Split.simps) (simp add: Let_def)

lemma setCalendar_total: "\<exists>ev. setCalendar ge event = Some ev"
proof -
  have "Split (Email (ge_Organizer ge)) ''@'' \<noteq> []" by (rule Split_nonempty) simp
  then have "\<exists>p. index (Split (Email (ge_Organizer ge)) ''@'') 0 = Some p"
    by (simp add: index_def)
  then show ?thesis by (auto simp: setCalendar_def)
qed

lemma convertEvent_total: "\<exists>ev. convertEvent L ge = Some ev"
  by (simp add: convertEvent_def setCalendar_total)

lemma convertEvents_all2:
  "\<exists>evs. convertEvents L ges acc = Some (acc @ evs) \<and>
         list_all2 (\<lambda>ge ev. convertEvent L ge = Some ev) ges evs"
proof (induction ges arbitrary: acc)
  case Nil
  show ?case by simp
next
  case (Cons ge ges)
  obtain ev where ev: "convertEvent L ge = Some ev" using convertEvent_total by blast
  from Cons [of "acc @ [ev]"] obtain evs where
    "convertEvents L ges (acc @ [ev]) = Some ((acc @ [ev]) @ evs)"
    "list_all2 (\<lambda>ge ev. convertEvent L ge = Some ev) ges evs" by blast
  with ev have "convertEvents L (ge # ges) acc = Some (acc @ ev # evs) \<and>
         list_all2 (\<lambda>ge ev. convertEvent L ge = Some ev) (ge # ges) (ev # evs)" by simp
  then show ?case by blast
qed

lemma convertEvents_total: "\<exists>evs. convertEvents L ges [] = Some evs"
  using convertEvents_all2 [of L ges "[]"] by auto

lemma truncate_s_eq:
  "0 \<le> n \<Longrightarrow>
   truncate_s s n = Some (if int (length s) \<le> n then s else take (nat n) s @ ''...'')"
  by (simp add: truncate_s_def slice_def)

lemma parseEvents_cases:
  "(\<exists>evs. parseEvents L result = Some (Inr evs)) \<or>
   (\<exists>err p. parseEvents L result = Some (Inl (ParseFailed err p)))"
proof -
  have "\<And>ges. \<exists>evs. map_option Inr (convertEvents L ges []) =
          Some (Inr evs :: error + CalendarEvent list)"
    using convertEvents_total by (metis option.simps(9))
  then show ?thesis
    by (auto simp: parseEvents_def Let_def truncate_s_eq split: sum.splits)
qed

text \<open>
  C5. Neither decoder panics, whatever the envelope and its text: \<open>parseTasks\<close> returns
  a task list, and \<open>parseEvents\<close> returns an event list or the decode error. (The
  envelope is the non-nil \<open>*mcp.ToolResult\<close> that \<open>CallTool\<close> hands over; the
  \<open>encoding/json\<close> and RFC 3339 parsers are parameters that return their errors.)
\<close>

theorem decoders_total:
  "(\<exists>tasks. parseTasks result = Some (Inr tasks)) \<and>
   ((\<exists>events. parseEvents L result = Some (Inr events)) \<or>
    (\<exists>err p. parseEvents L result = Some (Inl (ParseFailed err p))))"
  using parseTasks_total parseEvents_cases by blast

text \<open>
  C10. \<open>parseTasks\<close> never returns an error: for every envelope the result is a task
  list with a \<open>nil\<close> error, and an envelope without content blocks gives the empty list.
\<close>

theorem parseTasks_nil_error:
  "parseTasks result \<noteq> None \<and> (\<forall>err. parseTasks result \<noteq> Some (Inl err)) \<and>
   parseTasks (result\<lparr>Content := []\<rparr>) = Some (Inr [])"
proof -
  obtain ts where "parseTasks result = Some (Inr ts)" using parseTasks_total by blast
  then show ?thesis by (simp add: parseTasks_def)
qed

section \<open>The task decoder: titles and the notes mode\<close>

lemma parseBlocks_titles:
  "parseBlocks bs acc = Some ts \<Longrightarrow> list_all (\<lambda>t. Title t \<noteq> []) acc \<Longrightarrow>
   list_all (\<lambda>t. Title t \<noteq> []) ts"
  by (induction bs arbitrary: acc) (auto simp: Let_def split: if_splits option.splits)

lemma parseContent_titles:
  "parseContent blocks acc = Some ts \<Longrightarrow> list_all (\<lambda>t. Title t \<noteq> []) acc \<Longrightarrow>
   list_all (\<lambda>t. Title t \<noteq> []) ts"
proof (induction blocks arbitrary: acc)
  case Nil
  then show ?case by simp
next
  case (Cons b bs)
  then show ?case
    by (auto split: if_splits option.splits dest: parseBlocks_titles)
qed

lemma parseTasks_titles:
  "parseTasks result = Some (Inr tasks) \<Longrightarrow> list_all (\<lambda>t. Title t \<noteq> []) tasks"
  using parseContent_titles [of "Content result" "[]" tasks]
  by (auto simp: parseTasks_def split: if_splits option.splits)

lemma milk_decoded:
  "parseTasks \<lparr>Content = [\<lparr>Type = ''text'', Text = milkText\<rparr>], IsError = False\<rparr> =
     Some (Inr [milkTask])"
  by code_simp

text \<open>
  C8. The text block \<open>Title: Buy milk / UUID: abc / Status: incomplete / --- / Title: /
  UUID: xyz\<close> decodes to exactly one task, with title \<open>Buy milk\<close> and status
  \<open>incomplete\<close>; the second chunk, whose title is empty, is dropped. In general every
  task \<open>parseTasks\<close> returns has a non-empty title.
\<close>

theorem parseTasks_drops_empty_titles:
  "parseTasks \<lparr>Content = [\<lparr>Type = ''text'', Text = milkText\<rparr>], IsError = False\<rparr> =
     Some (Inr [milkTask]) \<and>
   Title milkTask = ''Buy milk'' \<and> Status milkTask = ''incomplete'' \<and>
   (\<forall>result tasks. parseTasks result = Some (Inr tasks) \<longrightarrow> (\<forall>t\<in>set tasks. Title t \<noteq> []))"
proof -
  have "Title milkTask = ''Buy milk'' \<and> Status milkTask = ''incomplete''"
    by (simp add: milkTask_def emptyTask_def)
  moreover have "\<forall>result tasks. parseTasks result = Some (Inr tasks) \<longrightarrow>
      (\<forall>t\<in>set tasks. Title t \<noteq> [])"
    using parseTasks_titles by (auto simp: list_all_iff)
  ultimately show ?thesis using milk_decoded by blast
qed

theorem parseTasks_drops_empty_titles_witness:
  "parseTasks \<lparr>Content = [\<lparr>Type = ''text'', Text = milkText\<rparr>], IsError = False\<rparr> =
     Some (Inr [milkTask]) \<and> Title milkTask \<noteq> []"
proof -
  from parseTasks_drops_empty_titles
  have a: "parseTasks \<lparr>Content = [\<lparr>Type = ''text'', Text = milkText\<rparr>], IsError = False\<rparr> =
     Some (Inr [milkTask])"
    and b: "\<forall>result tasks. parseTasks result = Some (Inr tasks) \<longrightarrow>
      (\<forall>t\<in>set tasks. Title t \<noteq> [])" by blast+
  from b a have "\<forall>t\<in>set [milkTask]. Title t \<noteq> []" by blast
  with a show ?thesis by simp
qed

lemma Index_colon: "CHR '':'' \<notin> set k \<Longrightarrow> Index (k @ CHR '':'' # rest) '':'' = int (length k)"
  by (induction k) (auto simp: HasPrefix_def Let_def)

lemma HasPrefix_split: "HasPrefix line p \<Longrightarrow> line = p @ drop (length p) line"
  by (metis HasPrefix_def append_take_drop_id)

lemma key_of_prefix:
  assumes "HasPrefix line (k @ '':'')" "CHR '':'' \<notin> set k" "k \<noteq> []"
  shows "0 < Index line '':'' \<and> take (nat (Index line '':'')) line = k"
proof -
  from assms(1) have "line = (k @ '':'') @ drop (length (k @ '':'')) line"
    by (rule HasPrefix_split)
  then obtain rest where line: "line = k @ CHR '':'' # rest" by simp
  with assms(2) have "Index line '':'' = int (length k)" by (simp add: Index_colon)
  with line assms(3) show ?thesis by simp
qed

lemma TrimSpace_keys:
  "TrimSpace ''Project'' = ''Project''" "TrimSpace ''Tags'' = ''Tags''"
  "TrimSpace ''Checklist'' = ''Checklist''" "TrimSpace ''Deadline'' = ''Deadline''"
  by code_simp+

lemma switchKey_four:
  "k \<in> {''Project'', ''Tags'', ''Checklist'', ''Deadline''} \<Longrightarrow>
   inNotes (switchKey k v st) = inNotes st \<and> notesBuilder (switchKey k v st) = notesBuilder st \<and>
   Notes (task (switchKey k v st)) = Notes (task st)"
  by (auto simp: switchKey_def split: option.splits)

lemma notesEnd_key:
  assumes "notesEnd line"
  shows "0 < Index line '':'' \<and>
    TrimSpace (take (nat (Index line '':'')) line) \<in> {''Project'', ''Tags'', ''Checklist'', ''Deadline''}"
proof -
  from assms consider "HasPrefix line (''Project'' @ '':'')" | "HasPrefix line (''Tags'' @ '':'')"
    | "HasPrefix line (''Checklist'' @ '':'')" | "HasPrefix line (''Deadline'' @ '':'')"
    by (auto simp: notesEnd_def)
  then show ?thesis
  proof cases
    case 1
    from key_of_prefix [OF 1] show ?thesis by (simp add: TrimSpace_keys)
  next
    case 2
    from key_of_prefix [OF 2] show ?thesis by (simp add: TrimSpace_keys)
  next
    case 3
    from key_of_prefix [OF 3] show ?thesis by (simp add: TrimSpace_keys)
  next
    case 4
    from key_of_prefix [OF 4] show ?thesis by (simp add: TrimSpace_keys)
  qed
qed

lemma switchKey_flags:
  "\<not> inChecklist st \<Longrightarrow> \<not> inNotes st \<Longrightarrow>
   \<not> (inNotes (switchKey k v st) \<and> inChecklist (switchKey k v st))"
  by (auto simp: switchKey_def split: option.splits)

lemma parseKeyValue_flags:
  "\<not> inChecklist st \<Longrightarrow> \<not> inNotes st \<Longrightarrow> parseKeyValue st line = Some st' \<Longrightarrow>
   \<not> (inNotes st' \<and> inChecklist st')"
  using switchKey_flags by (auto simp: parseKeyValue_eq split: if_splits)

lemma parseNotes_flags:
  "\<not> inChecklist st \<Longrightarrow> parseNotes st line = Some st' \<Longrightarrow> \<not> (inNotes st' \<and> inChecklist st')"
  using parseKeyValue_flags [of "st\<lparr>inNotes := False,
          task := (task st)\<lparr>Notes := TrimSpace (notesBuilder st)\<rparr>\<rparr>" line st']
    parseKeyValue_flags [of st line st']
  by (auto simp: parseNotes_def split: if_splits)

lemma parseLine_flags:
  "\<not> (inNotes st \<and> inChecklist st) \<Longrightarrow> parseLine st raw = Some st' \<Longrightarrow>
   \<not> (inNotes st' \<and> inChecklist st')"
  using parseNotes_flags [of "st\<lparr>inChecklist := False\<rparr>" "TrimSpace raw" st']
    parseNotes_flags [of st "TrimSpace raw" st']
  by (auto simp: parseLine_def Let_def split: if_splits)

lemma scanLines_flags:
  "scanLines st ls = Some st' \<Longrightarrow> \<not> (inNotes st \<and> inChecklist st) \<Longrightarrow>
   \<not> (inNotes st' \<and> inChecklist st')"
proof (induction ls arbitrary: st)
  case Nil
  then show ?case by simp
next
  case (Cons l ls)
  from Cons.prems(1) obtain st1 where
    s1: "parseLine st l = Some st1" "scanLines st1 ls = Some st'"
    by (auto split: option.splits)
  from parseLine_flags [OF Cons.prems(2) s1(1)]
  have "\<not> (inNotes st1 \<and> inChecklist st1)" .
  with Cons.IH [OF s1(2)] show ?case by blast
qed

text \<open>
  C9 (as amended). In a scanner state reached from the start of a block with the notes
  mode on, the next line ends the mode exactly when, trimmed, it begins with one of
  \<open>Project:\<close>, \<open>Tags:\<close>, \<open>Checklist:\<close>, \<open>Deadline:\<close>. Such a line closes the notes
  (the text gathered so far, trimmed) and is then parsed as a key/value pair; it is not
  added to the notes text. Every other line, whatever key it begins with, is appended to
  the notes text and the mode stays on.
\<close>

theorem notes_mode_ends_at_four_keys:
  assumes "scanLines initScanner ls = Some st" and "inNotes st"
  shows "parseLine st raw =
           (if notesEnd (TrimSpace raw)
            then parseKeyValue
                   (st\<lparr>inNotes := False,
                       task := (task st)\<lparr>Notes := TrimSpace (notesBuilder st)\<rparr>\<rparr>)
                   (TrimSpace raw)
            else Some (st\<lparr>notesBuilder := notesBuilder st @ TrimSpace raw @ [NL]\<rparr>)) \<and>
         (\<exists>st'. parseLine st raw = Some st' \<and>
            (inNotes st' \<longleftrightarrow> \<not> notesEnd (TrimSpace raw)) \<and>
            (notesEnd (TrimSpace raw) \<longrightarrow>
               notesBuilder st' = notesBuilder st \<and>
               Notes (task st') = TrimSpace (notesBuilder st)))"
proof -
  let ?line = "TrimSpace raw"
  let ?closed = "st\<lparr>inNotes := False, task := (task st)\<lparr>Notes := TrimSpace (notesBuilder st)\<rparr>\<rparr>"
  from assms have "\<not> inChecklist st"
    using scanLines_flags [of initScanner ls st] by (auto simp: initScanner_def)
  with assms(2) have step: "parseLine st raw =
      (if notesEnd ?line then parseKeyValue ?closed ?line
       else Some (st\<lparr>notesBuilder := notesBuilder st @ ?line @ [NL]\<rparr>))"
    by (simp add: parseLine_def parseNotes_def Let_def)
  show ?thesis
  proof (cases "notesEnd ?line")
    case True
    from notesEnd_key [OF True] obtain k where
      k: "0 < Index ?line '':''" "TrimSpace (take (nat (Index ?line '':'')) ?line) = k"
         "k \<in> {''Project'', ''Tags'', ''Checklist'', ''Deadline''}" by blast
    let ?v = "TrimSpace (drop (nat (Index ?line '':'' + 1)) ?line)"
    from k have kv: "parseKeyValue ?closed ?line = Some (switchKey k ?v ?closed)"
      by (simp add: parseKeyValue_eq)
    from switchKey_four [OF k(3), of ?v ?closed]
    have "\<not> inNotes (switchKey k ?v ?closed)"
      "notesBuilder (switchKey k ?v ?closed) = notesBuilder st"
      "Notes (task (switchKey k ?v ?closed)) = TrimSpace (notesBuilder st)" by simp_all
    with step kv True show ?thesis by simp
  next
    case False
    with step assms(2) show ?thesis by simp
  qed
qed

theorem notes_mode_ends_at_four_keys_witness:
  "parseLine notesOpen ''Tags: home, errand'' =
     Some (notesOpen\<lparr>inNotes := False,
       task := emptyTask\<lparr>Notes := ''call the shop'', Tags := [''home'', ''errand'']\<rparr>\<rparr>)"
proof -
  have h1: "scanLines initScanner [''Notes: call the shop''] = Some notesOpen" by code_simp
  have h2: "inNotes notesOpen" by (simp add: notesOpen_def)
  have h3: "notesEnd (TrimSpace ''Tags: home, errand'') = True" by code_simp
  have h4: "parseKeyValue
      (notesOpen\<lparr>inNotes := False,
         task := (task notesOpen)\<lparr>Notes := TrimSpace (notesBuilder notesOpen)\<rparr>\<rparr>)
      (TrimSpace ''Tags: home, errand'') =
     Some (notesOpen\<lparr>inNotes := False,
       task := emptyTask\<lparr>Notes := ''call the shop'', Tags := [''home'', ''errand'']\<rparr>\<rparr>)"
    by code_simp
  from notes_mode_ends_at_four_keys [OF h1 h2, of "''Tags: home, errand''"]
  have "parseLine notesOpen ''Tags: home, errand'' =
      (if notesEnd (TrimSpace ''Tags: home, errand'')
       then parseKeyValue
          (notesOpen\<lparr>inNotes := False,
             task := (task notesOpen)\<lparr>Notes := TrimSpace (notesBuilder notesOpen)\<rparr>\<rparr>)
          (TrimSpace ''Tags: home, errand'')
       else Some (notesOpen\<lparr>notesBuilder := notesBuilder notesOpen @
          TrimSpace ''Tags: home, errand'' @ [NL]\<rparr>))" by (rule conjunct1)
  then show ?thesis unfolding h3 if_True h4 .
qed

text \<open>
  C9 as stated fails: \<open>Status\<close> is a key the scanner recognises, yet after
  \<open>Notes: call the shop\<close> the line \<open>Status: completed\<close> leaves the notes mode on, is
  appended to the notes text and sets no field of the task.
\<close>

theorem notes_mode_counterexample:
  "scanLines initScanner [''Notes: call the shop'', ''Status: completed''] =
     Some (initScanner\<lparr>notesBuilder := ''call the shop'' @ [NL] @ ''Status: completed'' @ [NL],
                       inNotes := True\<rparr>) \<and>
   ''Status'' \<in> set recognizedKeys \<and> HasPrefix ''Status: completed'' (''Status'' @ '':'')"
  by code_simp

section \<open>The event decoder: all-day events and the wrapped form\<close>

lemma parseDate_0310: "parseDate ''2025-03-10'' = Some (Date 2025 3 10 0 0 0 0 UTC)"
  by code_simp

lemma setCalendar_keeps:
  "setCalendar ge event = Some ev \<Longrightarrow>
   ev_StartTime ev = ev_StartTime event \<and> ev_AllDay ev = ev_AllDay event"
  by (auto simp: setCalendar_def split: if_splits Option.bind_splits)

lemma setEnd_keeps:
  "ev_StartTime (setEnd L ge event) = ev_StartTime event \<and>
   ev_AllDay (setEnd L ge event) = ev_AllDay event"
  by (simp add: setEnd_def split: option.splits)

lemma convertEvent_all_day:
  assumes "convertEvent L ge = Some ev"
    and "dt_DateTime (ge_Start ge) = []" "dt_Date (ge_Start ge) = ''2025-03-10''"
  shows "ev_AllDay ev \<and> ev_StartTime ev = Date 2025 3 10 0 0 0 0 UTC"
proof -
  let ?e0 = "\<lparr>ev_ID = ge_ID ge, ev_Title = ge_Summary ge, ev_StartTime = zeroTime,
            ev_EndTime = zeroTime, ev_Location = ge_Location ge, ev_Notes = [],
            ev_Calendar = [], ev_AllDay = False\<rparr>"
  from assms(2,3) have "ev_AllDay (setStart L ge ?e0) \<and>
      ev_StartTime (setStart L ge ?e0) = Date 2025 3 10 0 0 0 0 UTC"
    by (simp add: setStart_def parseDate_0310 del: parseDate.simps)
  then have "ev_AllDay (setEnd L ge (setStart L ge ?e0)) \<and>
      ev_StartTime (setEnd L ge (setStart L ge ?e0)) = Date 2025 3 10 0 0 0 0 UTC"
    by (simp add: setEnd_keeps)
  with assms(1) show ?thesis
    using setCalendar_keeps [of ge "setEnd L ge (setStart L ge ?e0)" ev]
    by (simp add: convertEvent_def)
qed

lemma parseEvents_decoded:
  assumes "firstText (Content result) = text" "text \<noteq> []" "decoded L text ges"
  shows "parseEvents L result = map_option Inr (convertEvents L ges [])"
proof -
  from assms(1,2) have "Content result \<noteq> []" by auto
  with assms show ?thesis
    by (auto simp: parseEvents_def decoded_def Let_def split: sum.splits)
qed

text \<open>
  C6 (as amended). For every record the decoder converts (from the direct decode or
  from the wrapped one) that has \<open>start.date = "2025-03-10"\<close> and no
  \<open>start.dateTime\<close>, the decoded event has \<open>AllDay = true\<close> and its start time is
  midnight on 2025-03-10 in UTC: \<open>time.Parse\<close> with the date-only layout returns UTC.
\<close>

theorem all_day_start_is_utc_midnight:
  assumes "firstText (Content result) = text" "text \<noteq> []" "decoded L text ges"
  shows "\<exists>events. parseEvents L result = Some (Inr events) \<and> length events = length ges \<and>
           (\<forall>i<length ges.
              dt_DateTime (ge_Start (ges ! i)) = [] \<and> dt_Date (ge_Start (ges ! i)) = ''2025-03-10''
                \<longrightarrow> ev_AllDay (events ! i) \<and>
                    ev_StartTime (events ! i) = Date 2025 3 10 0 0 0 0 UTC)"
proof -
  obtain events where ev: "convertEvents L ges [] = Some ([] @ events)"
    "list_all2 (\<lambda>ge ev. convertEvent L ge = Some ev) ges events"
    using convertEvents_all2 [of L ges "[]"] by blast
  from ev(2) have len: "length events = length ges" by (simp add: list_all2_lengthD)
  have "\<forall>i<length ges.
      dt_DateTime (ge_Start (ges ! i)) = [] \<and> dt_Date (ge_Start (ges ! i)) = ''2025-03-10''
        \<longrightarrow> ev_AllDay (events ! i) \<and> ev_StartTime (events ! i) = Date 2025 3 10 0 0 0 0 UTC"
  proof (intro allI impI)
    fix i
    assume i: "i < length ges"
      and d: "dt_DateTime (ge_Start (ges ! i)) = [] \<and> dt_Date (ge_Start (ges ! i)) = ''2025-03-10''"
    from list_all2_nthD [OF ev(2) i]
    have "convertEvent L (ges ! i) = Some (events ! i)" .
    with d show "ev_AllDay (events ! i) \<and> ev_StartTime (events ! i) = Date 2025 3 10 0 0 0 0 UTC"
      by (simp add: convertEvent_all_day)
  qed
  moreover from ev(1) assms have "parseEvents L result = Some (Inr events)"
    by (simp add: parseEvents_decoded)
  ultimately show ?thesis using len by blast
qed

lemma offsite_decoded:
  "parseEvents stubDecode (textResult arrayText) = Some (Inr [offsiteDecoded])"
  by code_simp

theorem all_day_start_is_utc_midnight_witness:
  "\<exists>events. parseEvents stubDecode (textResult arrayText) = Some (Inr events) \<and>
      length events = 1 \<and> ev_AllDay (events ! 0) \<and>
      ev_StartTime (events ! 0) = Date 2025 3 10 0 0 0 0 UTC"
proof -
  have "firstText (Content (textResult arrayText)) = arrayText" by (simp add: textResult_def)
  moreover have "arrayText \<noteq> []" by (simp add: arrayText_def)
  moreover have "decoded stubDecode arrayText [offsite]" by (simp add: decoded_def stubDecode_def)
  ultimately show ?thesis
    using all_day_start_is_utc_midnight [of "textResult arrayText" arrayText stubDecode "[offsite]"]
    by (simp add: offsite_def)
qed

text \<open>
  C6 as stated fails: the all-day event of 2025-03-10 is decoded with a start time in
  UTC, which is not midnight of that day in the local zone.
\<close>

theorem all_day_start_not_local:
  "parseEvents stubDecode (textResult arrayText) = Some (Inr [offsiteDecoded]) \<and>
   ev_StartTime offsiteDecoded \<noteq> Date 2025 3 10 0 0 0 0 Local"
  using offsite_decoded by (simp add: offsiteDecoded_def)

text \<open>
  C7. When the direct decode of the text into an array fails: if the wrapped decode
  gives the records \<open>ges\<close>, \<open>parseEvents\<close> succeeds with their conversions, and its
  result is the one it gives for any text whose direct decode gives the same \<open>ges\<close>
  (the array at top level); if the wrapped decode fails too, \<open>parseEvents\<close> returns
  the decode error with the first error and a preview of the text, the text itself up to
  200 bytes and otherwise its first 200 bytes followed by \<open>...\<close>, so at most 203 bytes.
\<close>

theorem parseEvents_wrapped_fallback:
  assumes "firstText (Content result) = text" "text \<noteq> []" "unmarshalEvents L text = Inl err"
  shows "(unmarshalWrapped L text = Inr ges \<longrightarrow>
            (\<exists>events. parseEvents L result = Some (Inr events) \<and>
               list_all2 (\<lambda>ge ev. convertEvent L ge = Some ev) ges events) \<and>
            (\<forall>result'. firstText (Content result') \<noteq> [] \<and>
               unmarshalEvents L (firstText (Content result')) = Inr ges \<longrightarrow>
               parseEvents L result' = parseEvents L result)) \<and>
         (unmarshalWrapped L text = Inl err2 \<longrightarrow>
            parseEvents L result =
              Some (Inl (ParseFailed err
                (if length text \<le> 200 then text else take 200 text @ ''...''))) \<and>
            length (if length text \<le> 200 then text else take 200 text @ ''...'') \<le> 203)"
proof (intro conjI impI allI)
  assume w: "unmarshalWrapped L text = Inr ges"
  with assms(3) have d: "decoded L text ges" by (simp add: decoded_def)
  obtain events where ev: "convertEvents L ges [] = Some ([] @ events)"
    "list_all2 (\<lambda>ge ev. convertEvent L ge = Some ev) ges events"
    using convertEvents_all2 [of L ges "[]"] by blast
  with assms(1,2) d
  show "\<exists>events. parseEvents L result = Some (Inr events) \<and>
          list_all2 (\<lambda>ge ev. convertEvent L ge = Some ev) ges events"
    by (auto simp: parseEvents_decoded)
  fix result' :: ToolResult
  assume r': "firstText (Content result') \<noteq> [] \<and>
    unmarshalEvents L (firstText (Content result')) = Inr ges"
  then have "decoded L (firstText (Content result')) ges" by (simp add: decoded_def)
  with r' have "parseEvents L result' = map_option Inr (convertEvents L ges [])"
    by (simp add: parseEvents_decoded)
  with assms(1,2) d show "parseEvents L result' = parseEvents L result"
    by (simp add: parseEvents_decoded)
next
  assume w: "unmarshalWrapped L text = Inl err2"
  from assms(1,2) have "Content result \<noteq> []" by auto
  with assms w show "parseEvents L result =
      Some (Inl (ParseFailed err (if length text \<le> 200 then text else take 200 text @ ''...'')))"
    by (simp add: parseEvents_def Let_def truncate_s_eq)
next
  show "length (if length text \<le> 200 then text else take 200 text @ ''...'') \<le> 203"
    by simp
qed

lemma stub_texts:
  "wrappedText \<noteq> arrayText" "arrayText \<noteq> []" "wrappedText \<noteq> []"
  "''<html>'' \<noteq> arrayText" "''<html>'' \<noteq> wrappedText"
  by (simp_all add: wrappedText_def arrayText_def q_def)

theorem parseEvents_wrapped_fallback_witness:
  "parseEvents stubDecode (textResult arrayText) = parseEvents stubDecode (textResult wrappedText) \<and>
   parseEvents stubDecode (textResult ''<html>'') =
     Some (Inl (ParseFailed (LibError ''json: cannot unmarshal into Go value of type []gcalEvent'')
       ''<html>''))"
proof -
  let ?e1 = "LibError ''json: cannot unmarshal into Go value of type []gcalEvent''"
  let ?e2 = "LibError ''json: cannot unmarshal into Go value of type struct''"
  have t: "\<And>text. firstText (Content (textResult text)) = text"
    by (simp add: textResult_def)
  have d1: "unmarshalEvents stubDecode wrappedText = Inl ?e1"
    and d2: "unmarshalWrapped stubDecode wrappedText = Inr [offsite]"
    and d3: "unmarshalEvents stubDecode arrayText = Inr [offsite]"
    and d4: "unmarshalEvents stubDecode ''<html>'' = Inl ?e1"
    and d5: "unmarshalWrapped stubDecode ''<html>'' = Inl ?e2"
    using stub_texts by (simp_all add: stubDecode_def)
  from parseEvents_wrapped_fallback [OF t stub_texts(3) d1, of "[offsite]" ?e2] d2
  have "\<forall>result'. firstText (Content result') \<noteq> [] \<and>
               unmarshalEvents stubDecode (firstText (Content result')) = Inr [offsite] \<longrightarrow>
               parseEvents stubDecode result' = parseEvents stubDecode (textResult wrappedText)"
    by blast
  then have a: "parseEvents stubDecode (textResult arrayText) =
      parseEvents stubDecode (textResult wrappedText)"
    using t d3 stub_texts(2) by metis
  have ne: "''<html>'' \<noteq> []" by simp
  from parseEvents_wrapped_fallback [OF t ne d4, of "[offsite]" ?e2] d5
  have "parseEvents stubDecode (textResult ''<html>'') = Some (Inl (ParseFailed ?e1 ''<html>''))"
    by simp
  with a show ?thesis by blast
qed

end
